theory Spec2Isabelle
  imports Complex_Main "HOL-Library.Sublist"
begin

section \<open>Shared data model\<close>

text \<open>
  A spreadsheet or API cell is a number, a string or a blank (pandas \<open>NaN\<close> / \<open>None\<close>).
  The number type \<open>'f\<close> stands for the floats of the source and is never inspected.
\<close>

datatype 'f cell = Num 'f | Str string | NaN

text \<open>Every exception the assets can raise is a value of \<open>error\<close>.\<close>

datatype error =
    FetchFailed int   \<comment> \<open>\<open>raise Exception("Failed to fetch the file, status code: ...")\<close>\<close>
  | IndexError
  | TypeError
  | ValueError
  | ApiError          \<comment> \<open>an exception escaping the retry wrapper of the API call\<close>

text \<open>
  The long-format output unit: the composite index \<open>(timestamp, point_id, point_type)\<close>
  and the single column \<open>value\<close>. Timestamps are integers (an instant on some fixed scale).
\<close>

record 'f long_row =
  timestamp :: int
  point_id :: string
  point_type :: string
  cell_value :: "'f cell"

definition index_key :: "'f long_row \<Rightarrow> int \<times> string \<times> string" where
  "index_key r = (timestamp r, point_id r, point_type r)"

text \<open>The log stream of a run: what the asset itself passes to \<open>context.log\<close>, in order.\<close>

datatype level = INFO | WARNING

datatype 'f log_msg =
    Handling_partition int int
  | Handling_single_partition
  | Fetched_data int int
  | Found_duplicates "'f long_row list"
  | No_data_found string

type_synonym 'f log = "(level \<times> 'f log_msg) list"

definition warnings :: "'f log \<Rightarrow> 'f log" where
  "warnings lg = filter (\<lambda>e. fst e = WARNING) lg"

section \<open>Windowed API assets (\<open>assets/entsog.py\<close>)\<close>

subsection \<open>Sub-windows of a partition\<close>

text \<open>
  Dates are day numbers. \<open>pd.date_range(start, end, freq='2D')\<close> yields \<open>start\<close>,
  \<open>start + freq\<close>, ... as long as the date is not after \<open>end\<close> (both ends inclusive).
\<close>

function date_range :: "int \<Rightarrow> int \<Rightarrow> int \<Rightarrow> int list" where
  "date_range start end freq =
     (if 0 < freq \<and> start \<le> end then start # date_range (start + freq) end freq else [])"
  by pat_completeness auto
termination
  by (relation "measure (\<lambda>(start, end, freq). nat (end - start + 1))") auto

declare date_range.simps [simp del]

definition Timedelta_days :: "int \<Rightarrow> int" where
  "Timedelta_days n = n"

definition freq_2D :: int where
  "freq_2D = 2"


subsection \<open>Collaborators outside the source files\<close>

text \<open>
  One row of the frame the API client returns: the three columns the assets rename, the
  \<open>value\<close> column, and whatever other columns the client delivers.
\<close>

record 'f raw_row =
  period_from :: string
  point_label :: string
  direction_key :: string
  raw_value :: "'f cell"
  other_columns :: "(string \<times> string) list"

text \<open>
  The frame between \<open>set_index\<close> and \<open>data[['value']]\<close>: indexed, but still carrying the
  other columns.
\<close>

record 'f indexed_row = "'f long_row" +
  columns :: "(string \<times> string) list"

text \<open>
  The helpers of \<open>utils/entsog_utils.py\<close> and \<open>utils/common.py\<close> and the pandas timestamp
  parser are parameters of the model: the assets are verified for every behaviour of
  theirs. A \<open>None\<close> of \<open>to_datetime_utc\<close> is pandas raising on an unparsable timestamp.
\<close>

record 'f collaborators =
  greek_operator_point_directions :: "string list"
  entsog_api_call_with_retries ::
    "int \<Rightarrow> int \<Rightarrow> string list \<Rightarrow> string list \<Rightarrow> error + 'f raw_row list"
  label_potential_duplicates_with_tso :: "'f raw_row list \<Rightarrow> 'f raw_row list"
  to_datetime_utc :: "string \<Rightarrow> int option"
  sanitize_df :: "'f indexed_row list \<Rightarrow> 'f indexed_row list"

subsection \<open>The body of the loop\<close>

text \<open>
  A comprehension or a column-wise conversion whose element function may raise: the
  first element that raises ends it.
\<close>

fun traverse :: "('a \<Rightarrow> error + 'b) \<Rightarrow> 'a list \<Rightarrow> error + 'b list" where
  "traverse f [] = Inr []"
| "traverse f (x # xs) =
     (case f x of
        Inl e \<Rightarrow> Inl e
      | Inr y \<Rightarrow>
          (case traverse f xs of
             Inl e \<Rightarrow> Inl e
           | Inr ys \<Rightarrow> Inr (y # ys)))"

definition or_raise :: "error \<Rightarrow> 'a option \<Rightarrow> error + 'a" where
  "or_raise e r = (case r of None \<Rightarrow> Inl e | Some v \<Rightarrow> Inr v)"

text \<open>
  \<open>data.rename(columns={"direction_key": "point_type", "period_from": "timestamp",
  "point_label": "point_id"})\<close>, the parsed timestamp as the index, and
  \<open>set_index(['point_id', 'point_type'], append=True)\<close>.
\<close>

definition rename_and_index :: "'f raw_row \<Rightarrow> int \<Rightarrow> 'f indexed_row" where
  "rename_and_index r t =
     \<lparr>timestamp = t, point_id = point_label r, point_type = direction_key r,
      cell_value = raw_value r, columns = other_columns r\<rparr>"

text \<open>\<open>data[['value']]\<close>: keep only the non-index column.\<close>

definition keep_value :: "'f indexed_row \<Rightarrow> 'f long_row" where
  "keep_value r =
     \<lparr>timestamp = timestamp r, point_id = point_id r, point_type = point_type r,
      cell_value = cell_value r\<rparr>"

text \<open>Lines 39 to 54 of the source: one non-empty sub-window result becomes a long table.\<close>

definition sub_window_table ::
  "'f collaborators \<Rightarrow> 'f raw_row list \<Rightarrow> error + 'f long_row list" where
  "sub_window_table u data0 =
     (let data = label_potential_duplicates_with_tso u data0 in
      case traverse (\<lambda>s. or_raise ValueError (to_datetime_utc u s)) (map period_from data) of
        Inl e \<Rightarrow> Inl e
      | Inr ts \<Rightarrow>
          (let indexed = sanitize_df u (map2 rename_and_index data ts);
               tbl = map keep_value indexed;
               tbl = filter (\<lambda>r. cell_value r \<noteq> Str []) tbl;
               tbl = filter (\<lambda>r. cell_value r \<noteq> NaN) tbl
           in Inr tbl))"

text \<open>
  The loop over \<open>days_list\<close>, with the log and \<open>bidaily_data\<close> as its state. An empty
  fetch result is skipped (\<open>continue\<close>); an exception ends the run with the log so far.
\<close>

fun fetch_loop ::
  "'f collaborators \<Rightarrow> string \<Rightarrow> int list \<Rightarrow> 'f log \<Rightarrow> 'f long_row list list \<Rightarrow>
   'f log \<times> (error + 'f long_row list list)" where
  "fetch_loop u indicator [] lg bidaily_data = (lg, Inr bidaily_data)"
| "fetch_loop u indicator (day # days) lg bidaily_data =
     (case entsog_api_call_with_retries u day (day + Timedelta_days 1) [indicator]
             (greek_operator_point_directions u) of
        Inl e \<Rightarrow> (lg, Inl e)
      | Inr data \<Rightarrow>
          if data = [] then fetch_loop u indicator days lg bidaily_data
          else
            (let lg' = lg @ [(INFO, Fetched_data day (day + Timedelta_days 1))] in
             case sub_window_table u data of
               Inl e \<Rightarrow> (lg', Inl e)
             | Inr tbl \<Rightarrow> fetch_loop u indicator days lg' (bidaily_data @ [tbl])))"

subsection \<open>After the loop\<close>

text \<open>
  \<open>complete_data.index.duplicated(keep=False)\<close> marks every row whose key occurs more
  than once; \<open>complete_data[duplicates]\<close> selects the marked rows.
\<close>

definition duplicated_keep_False :: "'k list \<Rightarrow> bool list" where
  "duplicated_keep_False ks = map (\<lambda>k. 1 < count_list ks k) ks"

definition boolean_mask :: "'a list \<Rightarrow> bool list \<Rightarrow> 'a list" where
  "boolean_mask xs flags = map fst (filter snd (zip xs flags))"

text \<open>
  The four assets have the same body and differ in the indicator they request. The
  result is the log and either the raised error or \<open>Output(value=...)\<close>, where
  \<open>None\<close> is \<open>Output(value=None)\<close>.
\<close>

definition entsog_asset ::
  "string \<Rightarrow> 'f collaborators \<Rightarrow> int \<times> int \<Rightarrow> 'f log \<times> (error + 'f long_row list option)" where
  "entsog_asset indicator u window =
     (let start = fst window; end = snd window;
          lg0 = [(INFO, Handling_partition start end)];
          days_list = date_range start end freq_2D;
          looped = fetch_loop u indicator days_list lg0 [];
          lg = fst looped
      in case snd looped of
           Inl e \<Rightarrow> (lg, Inl e)
         | Inr bidaily_data \<Rightarrow>
             (if length bidaily_data = 0 then (lg, Inr None)
              else
                (let complete_data = concat bidaily_data in
                 if \<not> distinct (map index_key complete_data) then
                   (let duplicates = duplicated_keep_False (map index_key complete_data) in
                    (lg @ [(WARNING, Found_duplicates (boolean_mask complete_data duplicates))],
                     Inr (Some complete_data)))
                 else (lg, Inr (Some complete_data)))))"

definition entsog_flows_daily ::
  "'f collaborators \<Rightarrow> int \<times> int \<Rightarrow> 'f log \<times> (error + 'f long_row list option)" where
  "entsog_flows_daily = entsog_asset ''physical_flow''"

definition entsog_nominations_daily ::
  "'f collaborators \<Rightarrow> int \<times> int \<Rightarrow> 'f log \<times> (error + 'f long_row list option)" where
  "entsog_nominations_daily = entsog_asset ''nomination''"

definition entsog_allocations_daily ::
  "'f collaborators \<Rightarrow> int \<times> int \<Rightarrow> 'f log \<times> (error + 'f long_row list option)" where
  "entsog_allocations_daily = entsog_asset ''allocation''"

definition entsog_renominations_daily ::
  "'f collaborators \<Rightarrow> int \<times> int \<Rightarrow> 'f log \<times> (error + 'f long_row list option)" where
  "entsog_renominations_daily = entsog_asset ''renomination''"

text \<open>The four assets, each with the indicator it requests.\<close>

definition windowed_assets ::
  "(string \<times> ('f collaborators \<Rightarrow> int \<times> int \<Rightarrow> 'f log \<times> (error + 'f long_row list option))) list" where
  "windowed_assets =
     [(''physical_flow'', entsog_flows_daily), (''nomination'', entsog_nominations_daily),
      (''allocation'', entsog_allocations_daily), (''renomination'', entsog_renominations_daily)]"

subsection \<open>The remote API and the unsplit query\<close>

text \<open>
  Modelled from the spec: the remote data API behind \<open>entsog_api_call_with_retries\<close>
  of \<open>utils/entsog_utils.py\<close>, which is not among the source files. The spec describes
  a "parameterized query by (identity keys, data kind, time window, country code)" that
  "may return an empty result", requested per "narrow (2-day) sub-window": a request
  from a day to the day after covers both days. The store holds each observation with
  its day; a query returns, in stored order, the observations of the days from
  \<open>date_from\<close> to \<open>date_to\<close>, both included.
\<close>

definition api_query ::
  "(int \<times> 'f raw_row) list \<Rightarrow> int \<Rightarrow> int \<Rightarrow> string list \<Rightarrow> string list \<Rightarrow>
   error + 'f raw_row list" where
  "api_query store date_from date_to indicators keys =
     Inr (map snd (filter (\<lambda>obs. date_from \<le> fst obs \<and> fst obs \<le> date_to) store))"


subsection \<open>A sample store\<close>

text \<open>
  Days count from 2024-04-01, so that the partition of April 2024 is the window from
  0 to 30; parsed timestamps are hours from the same date.
\<close>

definition sample_row :: "string \<Rightarrow> string \<Rightarrow> string \<Rightarrow> int cell \<Rightarrow> int raw_row" where
  "sample_row t p d v =
     \<lparr>period_from = t, point_label = p, direction_key = d, raw_value = v, other_columns = []\<rparr>"

definition sample_store :: "(int \<times> int raw_row) list" where
  "sample_store =
     [(0, sample_row ''2024-04-01'' ''KIPI'' ''entry'' (Num 5)),
      (0, sample_row ''2024-04-01'' ''KIPI'' ''entry'' (Num 7)),
      (1, sample_row ''2024-04-02'' ''KIPI'' ''entry'' (Str [])),
      (1, sample_row ''2024-04-02'' ''SIDIROKASTRO'' ''exit'' NaN),
      (2, sample_row ''2024-04-03'' ''KIPI'' ''entry'' (Num 6)),
      (31, sample_row ''2024-05-02'' ''KIPI'' ''entry'' (Num 9))]"

definition sample_to_datetime :: "string \<Rightarrow> int option" where
  "sample_to_datetime =
     map_of [(''2024-04-01'', 0), (''2024-04-02'', 24), (''2024-04-03'', 48),
             (''2024-05-02'', 744)]"

definition sample_collaborators :: "(int \<times> int raw_row) list \<Rightarrow> int collaborators" where
  "sample_collaborators store =
     \<lparr>greek_operator_point_directions = [''KIPI entry''],
      entsog_api_call_with_retries = api_query store,
      label_potential_duplicates_with_tso = (\<lambda>data. data),
      to_datetime_utc = sample_to_datetime,
      sanitize_df = (\<lambda>data. data)\<rparr>"

section \<open>Spreadsheet assets (\<open>assets/desfa.py\<close>)\<close>

subsection \<open>Frames and library functions\<close>

text \<open>
  A data frame: its number of columns and its rows, every row \<open>width\<close> cells long.
  The response of \<open>requests.get\<close> carries the status code and, as \<open>content\<close>, the
  frame \<open>pd.read_excel(BytesIO(response.content), sheet_name=0)\<close> reads from the bytes.
\<close>

record 'f frame =
  width :: nat
  rows :: "'f cell list list"

record 'f response =
  status_code :: int
  content :: "'f frame"

text \<open>
  The pandas and Python conversions the assets call, as parameters:
  \<open>pd.to_datetime(..., format='%Y')\<close> on one cell (\<open>None\<close>: it raises), \<open>str\<close> of a
  number, \<open>float\<close> of a string (\<open>None\<close>: it raises) and \<open>Series.to_string()\<close> of a row.
\<close>

record 'f pandas =
  to_datetime_year :: "'f cell \<Rightarrow> int option"
  str_of_num :: "'f \<Rightarrow> string"
  float_of_str :: "string \<Rightarrow> 'f cell option"
  row_to_string :: "'f cell list \<Rightarrow> string"

definition astype_str :: "'f pandas \<Rightarrow> 'f cell \<Rightarrow> string" where
  "astype_str P c = (case c of Str s \<Rightarrow> s | Num x \<Rightarrow> str_of_num P x | NaN \<Rightarrow> ''nan'')"

definition str_contains :: "string \<Rightarrow> string \<Rightarrow> bool" where
  "str_contains pat s = sublist pat s"

definition endswith :: "string \<Rightarrow> string \<Rightarrow> bool" where
  "endswith s suf = suffix suf s"

text \<open>A Python slice \<open>xs[a:b]\<close> with integer bounds: negative bounds count from the end.\<close>

definition slice_bound :: "int \<Rightarrow> nat \<Rightarrow> nat" where
  "slice_bound i n = (if i < 0 then nat (max 0 (i + int n)) else min (nat i) n)"

definition slice :: "int \<Rightarrow> int \<Rightarrow> 'a list \<Rightarrow> 'a list" where
  "slice a b xs =
     (let lo = slice_bound a (length xs); hi = slice_bound b (length xs)
      in take (hi - lo) (drop lo xs))"

text \<open>\<open>df.drop(df.columns[i], axis=1)\<close>: \<open>df.columns[i]\<close> raises when there is no such column.\<close>

definition drop_column :: "nat \<Rightarrow> 'f frame \<Rightarrow> error + 'f frame" where
  "drop_column i df =
     (if i < width df
      then Inr \<lparr>width = width df - 1, rows = map (\<lambda>r. take i r @ drop (Suc i) r) (rows df)\<rparr>
      else Inl IndexError)"

subsection \<open>Wide to long (lines 60 to 102 and 252 to 296)\<close>

definition remove_suffix :: "string \<Rightarrow> string" where
  "remove_suffix point =
     (if endswith point ''_entry'' then take (length point - 6) point
      else take (length point - 5) point)"

definition label_point_as_entry_or_exit :: "string \<Rightarrow> string" where
  "label_point_as_entry_or_exit point = (if endswith point ''_entry'' then ''entry'' else ''exit'')"

text \<open>\<open>x + "_entry"\<close> raises a \<open>TypeError\<close> unless the header cell \<open>x\<close> is a string.\<close>

definition add_suffix :: "string \<Rightarrow> 'f cell \<Rightarrow> error + string" where
  "add_suffix suf x = (case x of Str s \<Rightarrow> Inr (s @ suf) | _ \<Rightarrow> Inl TypeError)"

definition suffixed_headers :: "'f cell list \<Rightarrow> error + string list" where
  "suffixed_headers new_headers =
     (case traverse (add_suffix ''_entry'') (take 4 new_headers) of
        Inl e \<Rightarrow> Inl e
      | Inr entries \<Rightarrow>
          (case traverse (add_suffix ''_exit'') (drop 4 new_headers) of
             Inl e \<Rightarrow> Inl e
           | Inr exits \<Rightarrow> Inr (entries @ exits)))"

text \<open>
  \<open>pd.melt(df, id_vars=['timestamp'], var_name='point_id', value_name='value')\<close>: column
  after column, and within a column row after row.
\<close>

definition melt :: "int list \<Rightarrow> string list \<Rightarrow> 'f cell list list \<Rightarrow> (int \<times> string \<times> 'f cell) list" where
  "melt ts names vals =
     concat (map (\<lambda>(j, name). map (\<lambda>(t, r). (t, name, r ! j)) (zip ts vals))
                 (enumerate 0 names))"

definition wide_to_long :: "'f pandas \<Rightarrow> 'f frame \<Rightarrow> error + 'f long_row list" where
  "wide_to_long P df =
     (case rows df of
        [] \<Rightarrow> Inl IndexError
      | header # body \<Rightarrow>
          (case suffixed_headers (tl header) of
             Inl e \<Rightarrow> Inl e
           | Inr new_headers \<Rightarrow>
               (case traverse (\<lambda>c. or_raise ValueError (to_datetime_year P c)) (map hd body) of
                  Inl e \<Rightarrow> Inl e
                | Inr ts \<Rightarrow>
                    Inr (map (\<lambda>(t, point, v).
                               \<lparr>timestamp = t, point_id = remove_suffix point,
                                point_type = label_point_as_entry_or_exit point,
                                cell_value = v\<rparr>)
                             (melt ts new_headers (map tl body))))))"

subsection \<open>\<open>desfa_flows_daily\<close>\<close>

text \<open>The UTF-8 bytes of the Greek word for "total" that marks an aggregate line.\<close>

definition aggregate_marker :: string where
  "aggregate_marker =
     [CHR 0xCE, CHR 0xA3, CHR 0xCE, CHR 0xA5, CHR 0xCE, CHR 0x9D,
      CHR 0xCE, CHR 0x9F, CHR 0xCE, CHR 0x9B, CHR 0xCE, CHR 0x9F]"

text \<open>Lines 54 to 56: the empty column, the three leading rows and the aggregate lines go.\<close>

definition strip_flows :: "'f pandas \<Rightarrow> 'f frame \<Rightarrow> error + 'f frame" where
  "strip_flows P df0 =
     (case drop_column 5 df0 of
        Inl e \<Rightarrow> Inl e
      | Inr df \<Rightarrow>
          (let df = df\<lparr>rows := drop 3 (rows df)\<rparr>;
               df = df\<lparr>rows := filter (\<lambda>r. \<not> str_contains aggregate_marker (astype_str P (hd r)))
                                     (rows df)\<rparr>
           in Inr df))"

definition desfa_flows_daily ::
  "'f pandas \<Rightarrow> 'f response \<Rightarrow> 'f log \<times> (error + 'f long_row list option)" where
  "desfa_flows_daily P response =
     (if status_code response = 200 then
        (case strip_flows P (content response) of
           Inl e \<Rightarrow> ([], Inl e)
         | Inr df \<Rightarrow>
             (case wide_to_long P df of
                Inl e \<Rightarrow> ([], Inl e)
              | Inr df_long \<Rightarrow> ([], Inr (Some df_long))))
      else ([], Inl (FetchFailed (status_code response))))"

subsection \<open>\<open>desfa_ng_gcv_daily\<close>\<close>

text \<open>
  Modelled from the spec: \<open>replace_dash_with_nan\<close> of \<open>utils/common.py\<close>, which is not
  among the source files. The spec says that a dash in a cell means "no data" and
  maps to the missing-value marker; every other cell is kept.
\<close>

definition replace_dash_with_nan :: "'f cell \<Rightarrow> 'f cell" where
  "replace_dash_with_nan c = (if c = Str ''-'' then NaN else c)"

text \<open>Lines 243 to 247: the empty column, three leading rows, the last column, the last four rows.\<close>

definition strip_gcv :: "'f frame \<Rightarrow> error + 'f frame" where
  "strip_gcv df0 =
     (case drop_column 5 df0 of
        Inl e \<Rightarrow> Inl e
      | Inr df \<Rightarrow>
          (let df = df\<lparr>rows := drop 3 (rows df)\<rparr>;
               df = \<lparr>width = width df - 1, rows = map butlast (rows df)\<rparr>;
               df = df\<lparr>rows := take (length (rows df) - 4) (rows df)\<rparr>
           in Inr df))"

definition desfa_ng_gcv_daily ::
  "'f pandas \<Rightarrow> 'f response \<Rightarrow> 'f log \<times> (error + 'f long_row list option)" where
  "desfa_ng_gcv_daily P response =
     (let lg = [(INFO, Handling_single_partition)] in
      if status_code response = 200 then
        (case strip_gcv (content response) of
           Inl e \<Rightarrow> (lg, Inl e)
         | Inr df \<Rightarrow>
             (case wide_to_long P df of
                Inl e \<Rightarrow> (lg, Inl e)
              | Inr df_long \<Rightarrow>
                  (lg, Inr (Some (map (\<lambda>r. r\<lparr>cell_value := replace_dash_with_nan (cell_value r)\<rparr>)
                                     df_long)))))
      else (lg, Inl (FetchFailed (status_code response))))"

subsection \<open>\<open>desfa_ng_quality_yearly\<close>\<close>

definition entry_points :: "string list" where
  "entry_points = [''AGIA TRIADA'', ''SIDIROKASTRO'', ''KIPI'', ''NEA MESIMVRIA'']"

text \<open>
  A row of the assembled table: the index levels \<open>timestamp\<close> and \<open>point_id\<close> and the
  fifteen value columns \<open>c1\<close>, ..., \<open>hydrocarbon_dew_point_max\<close> in the order of the source.
\<close>

record 'f quality_row =
  q_timestamp :: int
  q_point_id :: "'f cell"
  q_values :: "'f cell list"

definition hydrocarbon_dew_point_max :: nat where
  "hydrocarbon_dew_point_max = 14"

text \<open>The search loop of lines 153 to 156.\<close>

fun find_start_row :: "'f pandas \<Rightarrow> string \<Rightarrow> 'f cell list list \<Rightarrow> nat \<Rightarrow> nat option" where
  "find_start_row P search_string [] row_idx = None"
| "find_start_row P search_string (r # rs) row_idx =
     (if str_contains (''Entry Point: '' @ search_string) (row_to_string P r)
      then Some (row_idx + 3)
      else find_start_row P search_string rs (Suc row_idx))"

text \<open>
  After \<open>block.map(...)\<close> pandas infers the type of each column again: a column is of
  \<open>object\<close> type when a string is left in it, and numeric when it holds numbers and blanks.
\<close>

definition dtype_is_object :: "'f cell list \<Rightarrow> bool" where
  "dtype_is_object col = list_ex (\<lambda>c. case c of Str s \<Rightarrow> True | _ \<Rightarrow> False) col"

text \<open>Lines 184 to 187: \<open>astype(str)\<close>, \<open>str.replace('<', '')\<close>, \<open>astype(np.float64)\<close>.\<close>

definition strip_less_than :: "'f pandas \<Rightarrow> 'f cell list \<Rightarrow> error + 'f cell list" where
  "strip_less_than P col =
     (if dtype_is_object col then
        traverse (\<lambda>c. or_raise ValueError
                         (float_of_str P (filter (\<lambda>ch. ch \<noteq> CHR ''<'') (astype_str P c))))
                 col
      else Inr col)"

text \<open>Lines 165 to 187: the block of one entry point, from the rows of its slice.\<close>

definition quality_block ::
  "'f pandas \<Rightarrow> string \<Rightarrow> nat \<Rightarrow> 'f cell list list \<Rightarrow> error + 'f quality_row list" where
  "quality_block P search_string full_width sliced =
     (let block = map (take 16) sliced in
      if min 16 full_width \<noteq> 16 then Inl ValueError
      else
        (case traverse (\<lambda>c. or_raise ValueError (to_datetime_year P c)) (map hd block) of
           Inl e \<Rightarrow> Inl e
         | Inr ts \<Rightarrow>
             (let point_ids = map (\<lambda>r. replace_dash_with_nan (Str search_string)) block;
                  vals = map (\<lambda>r. map replace_dash_with_nan (tl r)) block
              in case strip_less_than P (map (\<lambda>v. v ! hydrocarbon_dew_point_max) vals) of
                   Inl e \<Rightarrow> Inl e
                 | Inr col \<Rightarrow>
                     Inr (map (\<lambda>(t, p, v, c).
                                \<lparr>q_timestamp = t, q_point_id = p,
                                 q_values = v[hydrocarbon_dew_point_max := c]\<rparr>)
                              (zip ts (zip point_ids (zip vals col)))))))"

text \<open>\<open>dataframes[search_string] = block\<close> on an insertion-ordered dictionary.\<close>

fun dict_set :: "('k \<times> 'v) list \<Rightarrow> 'k \<Rightarrow> 'v \<Rightarrow> ('k \<times> 'v) list" where
  "dict_set [] k v = [(k, v)]"
| "dict_set ((k', v') # kvs) k v =
     (if k' = k then (k, v) # kvs else (k', v') # dict_set kvs k v)"

text \<open>
  The loop over \<open>entry_points\<close>, with the log and \<open>dataframes\<close> as its state;
  \<open>current_year\<close> is \<open>datetime.date.today().year\<close>.
\<close>

fun points_loop ::
  "'f pandas \<Rightarrow> int \<Rightarrow> 'f frame \<Rightarrow> string list \<Rightarrow> 'f log \<Rightarrow>
   (string \<times> 'f quality_row list) list \<Rightarrow>
   'f log \<times> (error + (string \<times> 'f quality_row list) list)" where
  "points_loop P current_year full_df [] lg dataframes = (lg, Inr dataframes)"
| "points_loop P current_year full_df (search_string # rest) lg dataframes =
     (case find_start_row P search_string (rows full_df) 0 of
        Some start_row \<Rightarrow>
          (let end_row =
                 (if str_contains ''NEA MESIMVRIA'' search_string
                  then min (int start_row + (current_year - 2021) + 1) (int (length (rows full_df)))
                  else min (int start_row + (current_year - 2008) + 1) (int (length (rows full_df))))
           in case quality_block P search_string (width full_df)
                     (slice (int start_row) end_row (rows full_df)) of
                Inl e \<Rightarrow> (lg, Inl e)
              | Inr block \<Rightarrow>
                  points_loop P current_year full_df rest lg
                    (dict_set dataframes search_string block))
      | None \<Rightarrow>
          points_loop P current_year full_df rest
            (lg @ [(WARNING, No_data_found search_string)]) dataframes)"

text \<open>\<open>pd.concat\<close> of no frames raises \<open>ValueError("No objects to concatenate")\<close>.\<close>

definition pd_concat :: "'a list list \<Rightarrow> error + 'a list" where
  "pd_concat frames = (if frames = [] then Inl ValueError else Inr (concat frames))"

definition desfa_ng_quality_yearly ::
  "'f pandas \<Rightarrow> int \<Rightarrow> 'f response \<Rightarrow> 'f log \<times> (error + 'f quality_row list option)" where
  "desfa_ng_quality_yearly P current_year response =
     (let lg0 = [(INFO, Handling_single_partition)] in
      if status_code response = 200 then
        (let looped = points_loop P current_year (content response) entry_points lg0 [];
             lg = fst looped
         in case snd looped of
              Inl e \<Rightarrow> (lg, Inl e)
            | Inr dataframes \<Rightarrow>
                (case pd_concat (map snd dataframes) of
                   Inl e \<Rightarrow> (lg, Inl e)
                 | Inr dataframe \<Rightarrow> (lg, Inr (Some dataframe))))
      else (lg0, Inl (FetchFailed (status_code response))))"


subsection \<open>Sample sheets\<close>

text \<open>
  Library functions for the samples: years given as text parse to their number, and
  the numbers and numeric strings of the samples convert to each other.
\<close>

definition sample_pandas :: "rat pandas" where
  "sample_pandas =
     \<lparr>to_datetime_year =
        (\<lambda>c. case c of Str s \<Rightarrow> map_of [(''2008'', 2008), (''2009'', 2009)] s | _ \<Rightarrow> None),
      str_of_num = (\<lambda>x. if x = 1 / 2 then ''0.5'' else ''1.2''),
      float_of_str = map_of [(''1.2'', Num (6 / 5)), (''0.5'', Num (1 / 2)), (''nan'', NaN)],
      row_to_string = (\<lambda>r. concat (map (\<lambda>c. case c of Str s \<Rightarrow> s @ ''; '' | _ \<Rightarrow> ''; '') r))\<rparr>"

text \<open>
  A flows sheet: three leading rows, the header line, one line of data with a dash in
  it, and an aggregate line. \<open>KIPI\<close> is listed among the entry and the exit points.
\<close>

definition sample_flows_sheet :: "rat frame" where
  "sample_flows_sheet =
     \<lparr>width = 7,
      rows =
        [replicate 7 NaN, replicate 7 NaN, replicate 7 NaN,
         [NaN, Str ''SIDIROKASTRO'', Str ''KIPI'', Str ''AGIA TRIADA'', Str ''NEA MESIMVRIA'',
          NaN, Str ''KIPI''],
         [Str ''2008'', Num 1, Str ''-'', Num 3, Num 4, NaN, Num 5],
         [Str aggregate_marker, Num 1, Num 0, Num 3, Num 4, NaN, Num 5]]\<rparr>"

text \<open>A GCV sheet: as above, with one more column and four trailing lines.\<close>

definition sample_gcv_sheet :: "rat frame" where
  "sample_gcv_sheet =
     \<lparr>width = 8,
      rows =
        [replicate 8 NaN, replicate 8 NaN, replicate 8 NaN,
         [NaN, Str ''SIDIROKASTRO'', Str ''KIPI'', Str ''AGIA TRIADA'', Str ''NEA MESIMVRIA'',
          NaN, Str ''KIPI'', NaN],
         [Str ''2008'', Num 1, Str ''-'', Num 3, Num 4, NaN, Num 5, NaN],
         replicate 8 NaN, replicate 8 NaN, replicate 8 NaN, replicate 8 NaN]\<rparr>"

text \<open>
  A quality sheet with the block of one entry point: the years 2008 and 2009, a
  less-than prefix in the water dew point and in the hydrocarbon dew point, and dashes.
\<close>

definition sample_quality_sheet :: "rat frame" where
  "sample_quality_sheet =
     \<lparr>width = 16,
      rows =
        [Str ''Entry Point: AGIA TRIADA'' # replicate 15 NaN,
         replicate 16 NaN,
         Str ''Year'' # replicate 15 NaN,
         Str ''2008'' # replicate 13 (Num 1) @ [Str ''<1.2'', Str ''<1.2''],
         Str ''2009'' # replicate 13 (Str ''-'') @ [Num 2, Num (1 / 2)]]\<rparr>"

text \<open>A quality sheet in which none of the four entry points is marked.\<close>

definition unmarked_quality_sheet :: "rat frame" where
  "unmarked_quality_sheet =
     \<lparr>width = 16,
      rows =
        [Str ''Entry Point: REVITHOUSSA'' # replicate 15 NaN,
         replicate 16 NaN,
         Str ''Year'' # replicate 15 NaN,
         Str ''2008'' # replicate 15 (Num 1)]\<rparr>"

section \<open>Properties of the windowed assets\<close>

subsection \<open>Sub-windows\<close>






subsection \<open>The windowed assets\<close>

lemma windowed_assets_cases:
  "(indicator, asset) \<in> set windowed_assets \<Longrightarrow> asset = entsog_asset indicator"
  by (auto simp: windowed_assets_def entsog_flows_daily_def entsog_nominations_daily_def
      entsog_allocations_daily_def entsog_renominations_daily_def)

lemma sub_window_table_values:
  "sub_window_table u d = Inr tbl \<Longrightarrow> r \<in> set tbl \<Longrightarrow>
     cell_value r \<noteq> Str [] \<and> cell_value r \<noteq> NaN"
  by (auto simp: sub_window_table_def Let_def split: sum.splits)

lemma fetch_loop_tables:
  assumes "snd (fetch_loop u ind days lg b) = Inr b'"
    and "\<forall>tbl \<in> set b. P tbl"
    and "\<And>d tbl. sub_window_table u d = Inr tbl \<Longrightarrow> P tbl"
  shows "\<forall>tbl \<in> set b'. P tbl"
  using assms(1,2)
proof (induction days arbitrary: lg b)
  case Nil
  then show ?case by simp
next
  case (Cons day days)
  then show ?case
    by (auto simp: Let_def assms(3) split: sum.splits if_splits)
qed

lemma fetch_loop_warnings:
  "warnings (fst (fetch_loop u ind days lg b)) = warnings lg"
  by (induction days arbitrary: lg b) (auto simp: Let_def warnings_def split: sum.splits)

lemma fetch_loop_all_empty:
  "\<forall>day \<in> set days. entsog_api_call_with_retries u day (day + Timedelta_days 1) [ind]
       (greek_operator_point_directions u) = Inr [] \<Longrightarrow>
   fetch_loop u ind days lg b = (lg, Inr b)"
  by (induction days arbitrary: lg b) auto

lemma fetch_loop_ok:
  assumes "\<forall>day \<in> set days. \<exists>data.
             entsog_api_call_with_retries u day (day + Timedelta_days 1) [ind]
               (greek_operator_point_directions u) = Inr data
             \<and> (data \<noteq> [] \<longrightarrow> (\<exists>tbl. sub_window_table u data = Inr tbl))"
  shows "snd (fetch_loop u ind days lg b) =
           Inr (b @ map (\<lambda>data. projr (sub_window_table u data))
                     (filter (\<lambda>data. data \<noteq> [])
                        (map (\<lambda>day. projr (entsog_api_call_with_retries u day
                               (day + Timedelta_days 1) [ind]
                               (greek_operator_point_directions u))) days)))"
  using assms
proof (induction days arbitrary: lg b)
  case Nil
  then show ?case by simp
next
  case (Cons day days)
  from Cons.prems obtain data where
    data: "entsog_api_call_with_retries u day (day + Timedelta_days 1) [ind]
             (greek_operator_point_directions u) = Inr data"
    and tbl: "data \<noteq> [] \<longrightarrow> (\<exists>tbl. sub_window_table u data = Inr tbl)"
    by auto
  from Cons.prems have rest: "\<forall>day \<in> set days. \<exists>data.
             entsog_api_call_with_retries u day (day + Timedelta_days 1) [ind]
               (greek_operator_point_directions u) = Inr data
             \<and> (data \<noteq> [] \<longrightarrow> (\<exists>tbl. sub_window_table u data = Inr tbl))"
    by simp
  show ?case
  proof (cases "data = []")
    case True
    with data Cons.IH [OF rest] show ?thesis by simp
  next
    case False
    with tbl obtain t where t: "sub_window_table u data = Inr t" by auto
    with False data Cons.IH [OF rest] show ?thesis by (simp add: Let_def)
  qed
qed

lemma boolean_mask_duplicated:
  "boolean_mask xs (duplicated_keep_False (map f xs)) =
     filter (\<lambda>x. 1 < count_list (map f xs) (f x)) xs"
proof -
  have "map fst (filter snd (zip xs (map g xs))) = filter g xs" for g :: "'a \<Rightarrow> bool"
    by (induction xs) auto
  from this [of "\<lambda>x. 1 < count_list (map f xs) (f x)"] show ?thesis
    by (simp add: boolean_mask_def duplicated_keep_False_def comp_def)
qed

subsection \<open>A sample run\<close>

lemma sample_dates:
  "date_range 0 30 freq_2D = [0, 2, 4, 6, 8, 10, 12, 14, 16, 18, 20, 22, 24, 26, 28, 30]"
  by (simp add: freq_2D_def date_range.simps)

lemma sample_run:
  "entsog_flows_daily (sample_collaborators sample_store) (0, 30) =
     ([(INFO, Handling_partition 0 30), (INFO, Fetched_data 0 1), (INFO, Fetched_data 2 3),
       (INFO, Fetched_data 30 31),
       (WARNING, Found_duplicates
          [\<lparr>timestamp = 0, point_id = ''KIPI'', point_type = ''entry'', cell_value = Num 5\<rparr>,
           \<lparr>timestamp = 0, point_id = ''KIPI'', point_type = ''entry'', cell_value = Num 7\<rparr>])],
      Inr (Some
         [\<lparr>timestamp = 0, point_id = ''KIPI'', point_type = ''entry'', cell_value = Num 5\<rparr>,
          \<lparr>timestamp = 0, point_id = ''KIPI'', point_type = ''entry'', cell_value = Num 7\<rparr>,
          \<lparr>timestamp = 48, point_id = ''KIPI'', point_type = ''entry'', cell_value = Num 6\<rparr>,
          \<lparr>timestamp = 744, point_id = ''KIPI'', point_type = ''entry'', cell_value = Num 9\<rparr>]))"
  by (simp add: entsog_flows_daily_def entsog_asset_def sample_dates Let_def
      sample_collaborators_def api_query_def sample_store_def sample_row_def
      Timedelta_days_def sub_window_table_def or_raise_def sample_to_datetime_def
      rename_and_index_def keep_value_def index_key_def boolean_mask_def
      duplicated_keep_False_def)

lemma sample_loop:
  "fetch_loop (sample_collaborators sample_store) ''physical_flow''
     (date_range 0 30 freq_2D) [(INFO, Handling_partition 0 30)] [] =
     ([(INFO, Handling_partition 0 30), (INFO, Fetched_data 0 1), (INFO, Fetched_data 2 3),
       (INFO, Fetched_data 30 31)],
      Inr [[\<lparr>timestamp = 0, point_id = ''KIPI'', point_type = ''entry'', cell_value = Num 5\<rparr>,
            \<lparr>timestamp = 0, point_id = ''KIPI'', point_type = ''entry'', cell_value = Num 7\<rparr>],
           [\<lparr>timestamp = 48, point_id = ''KIPI'', point_type = ''entry'', cell_value = Num 6\<rparr>],
           [\<lparr>timestamp = 744, point_id = ''KIPI'', point_type = ''entry'', cell_value = Num 9\<rparr>]])"
  by (simp add: sample_dates Let_def
      sample_collaborators_def api_query_def sample_store_def sample_row_def
      Timedelta_days_def sub_window_table_def or_raise_def sample_to_datetime_def
      rename_and_index_def keep_value_def)

lemma sample_member:
  "(''physical_flow'', entsog_flows_daily) \<in> set windowed_assets"
  by (simp add: windowed_assets_def)

subsection \<open>Values and duplicates\<close>

text \<open>
  Claim C9. In every windowed asset the rows whose value is the empty string or null
  are dropped from a sub-window table before it is appended, so no row of the returned
  partition table has an empty-string or null value.
\<close>

theorem empty_values_dropped:
  assumes asset: "(indicator, asset) \<in> set windowed_assets"
  shows
    "(\<forall>data tbl. sub_window_table u data = Inr tbl \<longrightarrow>
        (\<forall>r \<in> set tbl. cell_value r \<noteq> Str [] \<and> cell_value r \<noteq> NaN))
     \<and> (\<forall>tbl. snd (asset u window) = Inr (Some tbl) \<longrightarrow>
        (\<forall>r \<in> set tbl. cell_value r \<noteq> Str [] \<and> cell_value r \<noteq> NaN))"
proof -
  have sub: "\<forall>data tbl. sub_window_table u data = Inr tbl \<longrightarrow>
        (\<forall>r \<in> set tbl. cell_value r \<noteq> Str [] \<and> cell_value r \<noteq> NaN)"
    using sub_window_table_values by blast
  have "cell_value r \<noteq> Str [] \<and> cell_value r \<noteq> NaN"
    if out: "snd (asset u window) = Inr (Some tbl)" and r: "r \<in> set tbl" for tbl r
  proof -
    let ?looped = "fetch_loop u indicator (date_range (fst window) (snd window) freq_2D)
                     [(INFO, Handling_partition (fst window) (snd window))] []"
    from asset have "asset = entsog_asset indicator" by (rule windowed_assets_cases)
    with out obtain b where b: "snd ?looped = Inr b" and tbl: "tbl = concat b"
      by (auto simp: entsog_asset_def Let_def split: sum.splits if_splits)
    have "\<forall>t \<in> set b. \<forall>r \<in> set t. cell_value r \<noteq> Str [] \<and> cell_value r \<noteq> NaN"
      by (rule fetch_loop_tables [OF b]) (use sub in auto)
    with tbl r show ?thesis by auto
  qed
  with sub show ?thesis by blast
qed

theorem empty_values_dropped_witness:
  "(''physical_flow'', entsog_flows_daily) \<in>
     set (windowed_assets ::
            (string \<times> (int collaborators \<Rightarrow> int \<times> int \<Rightarrow> int log \<times> (error + int long_row list option))) list)
   \<and> snd (entsog_flows_daily (sample_collaborators sample_store) (0, 30)) =
       Inr (Some
         [\<lparr>timestamp = 0, point_id = ''KIPI'', point_type = ''entry'', cell_value = Num 5\<rparr>,
          \<lparr>timestamp = 0, point_id = ''KIPI'', point_type = ''entry'', cell_value = Num 7\<rparr>,
          \<lparr>timestamp = 48, point_id = ''KIPI'', point_type = ''entry'', cell_value = Num 6\<rparr>,
          \<lparr>timestamp = 744, point_id = ''KIPI'', point_type = ''entry'', cell_value = Num 9\<rparr>])
   \<and> cell_value \<lparr>timestamp = 48, point_id = ''KIPI'', point_type = ''entry'',
                   cell_value = Num (6::int)\<rparr> \<noteq> Str []
   \<and> cell_value \<lparr>timestamp = 48, point_id = ''KIPI'', point_type = ''entry'',
                   cell_value = Num (6::int)\<rparr> \<noteq> NaN"
  using empty_values_dropped [OF sample_member, of "sample_collaborators sample_store" "(0, 30)"]
  by (simp add: sample_member sample_run)

text \<open>
  Claim C3. In every windowed asset, when the concatenated partition result has a
  composite key \<open>(timestamp, point_id, point_type)\<close> that is not unique, the run logs
  exactly one warning, which carries all the rows whose key occurs more than once, and
  returns the concatenated table as it is: no colliding row is removed.
\<close>

theorem duplicates_warned_not_removed:
  assumes asset: "(indicator, asset) \<in> set windowed_assets"
    and loop: "snd (fetch_loop u indicator (date_range start end freq_2D)
                  [(INFO, Handling_partition start end)] []) = Inr bidaily_data"
    and dup: "\<not> distinct (map index_key (concat bidaily_data))"
  shows "warnings (fst (asset u (start, end))) =
           [(WARNING, Found_duplicates
               (filter (\<lambda>r. 1 < count_list (map index_key (concat bidaily_data)) (index_key r))
                       (concat bidaily_data)))]
         \<and> snd (asset u (start, end)) = Inr (Some (concat bidaily_data))"
proof -
  from asset have a: "asset = entsog_asset indicator" by (rule windowed_assets_cases)
  from dup have ne: "bidaily_data \<noteq> []" by auto
  have lg: "warnings (fst (fetch_loop u indicator (date_range start end freq_2D)
                  [(INFO, Handling_partition start end)] [])) = []"
    by (simp add: fetch_loop_warnings) (simp add: warnings_def)
  have app: "warnings (l @ [(WARNING, m)]) = warnings l @ [(WARNING, m)]"
    for l :: "'a log" and m
    by (simp add: warnings_def)
  show ?thesis
    using loop dup ne
    by (simp add: a entsog_asset_def Let_def app lg boolean_mask_duplicated)
qed

theorem duplicates_warned_not_removed_witness:
  "(''physical_flow'', entsog_flows_daily) \<in>
     set (windowed_assets ::
            (string \<times> (int collaborators \<Rightarrow> int \<times> int \<Rightarrow> int log \<times> (error + int long_row list option))) list)
   \<and> warnings (fst (entsog_flows_daily (sample_collaborators sample_store) (0, 30))) =
       [(WARNING, Found_duplicates
          [\<lparr>timestamp = 0, point_id = ''KIPI'', point_type = ''entry'', cell_value = Num 5\<rparr>,
           \<lparr>timestamp = 0, point_id = ''KIPI'', point_type = ''entry'', cell_value = Num 7\<rparr>])]
   \<and> snd (entsog_flows_daily (sample_collaborators sample_store) (0, 30)) =
       Inr (Some
         [\<lparr>timestamp = 0, point_id = ''KIPI'', point_type = ''entry'', cell_value = Num 5\<rparr>,
          \<lparr>timestamp = 0, point_id = ''KIPI'', point_type = ''entry'', cell_value = Num 7\<rparr>,
          \<lparr>timestamp = 48, point_id = ''KIPI'', point_type = ''entry'', cell_value = Num 6\<rparr>,
          \<lparr>timestamp = 744, point_id = ''KIPI'', point_type = ''entry'', cell_value = Num 9\<rparr>])"
proof -
  let ?b = "[[\<lparr>timestamp = 0, point_id = ''KIPI'', point_type = ''entry'', cell_value = Num (5::int)\<rparr>,
            \<lparr>timestamp = 0, point_id = ''KIPI'', point_type = ''entry'', cell_value = Num 7\<rparr>],
           [\<lparr>timestamp = 48, point_id = ''KIPI'', point_type = ''entry'', cell_value = Num 6\<rparr>],
           [\<lparr>timestamp = 744, point_id = ''KIPI'', point_type = ''entry'', cell_value = Num 9\<rparr>]]"
  have loop: "snd (fetch_loop (sample_collaborators sample_store) ''physical_flow''
                (date_range 0 30 freq_2D) [(INFO, Handling_partition 0 30)] []) = Inr ?b"
    by (simp add: sample_loop)
  have dup: "\<not> distinct (map index_key (concat ?b))"
    by (simp add: index_key_def)
  from duplicates_warned_not_removed [OF sample_member loop dup] show ?thesis
    by (simp add: sample_member index_key_def)
qed

subsection \<open>Empty partitions\<close>

lemma ne_from_mem: "x \<in> set xs \<Longrightarrow> xs \<noteq> []"
  by auto

lemma entsog_asset_some:
  assumes "snd (fetch_loop u indicator (date_range start end freq_2D)
                  [(INFO, Handling_partition start end)] []) = Inr b"
    and "b \<noteq> []"
  shows "snd (entsog_asset indicator u (start, end)) = Inr (Some (concat b))"
  using assms by (simp add: entsog_asset_def Let_def)

text \<open>
  Claim C4. In every windowed asset, when every sub-window fetch of the partition
  returns an empty result, the run returns the explicit absent output
  \<open>Output(value=None)\<close>: not an error and not a table without rows. Conversely, when
  no call raises and at least one sub-window returns data, the run returns the
  concatenation of the tables of the sub-windows that returned data.
\<close>

theorem empty_partition_gives_absent_output:
  assumes asset: "(indicator, asset) \<in> set windowed_assets"
  shows
    "((\<forall>day \<in> set (date_range start end freq_2D).
         entsog_api_call_with_retries u day (day + Timedelta_days 1) [indicator]
           (greek_operator_point_directions u) = Inr [])
      \<longrightarrow> snd (asset u (start, end)) = Inr None)
     \<and> ((\<forall>day \<in> set (date_range start end freq_2D). \<exists>data.
           entsog_api_call_with_retries u day (day + Timedelta_days 1) [indicator]
             (greek_operator_point_directions u) = Inr data
           \<and> (data \<noteq> [] \<longrightarrow> (\<exists>tbl. sub_window_table u data = Inr tbl)))
         \<and> (\<exists>day \<in> set (date_range start end freq_2D).
           entsog_api_call_with_retries u day (day + Timedelta_days 1) [indicator]
             (greek_operator_point_directions u) \<noteq> Inr [])
      \<longrightarrow> snd (asset u (start, end)) =
            Inr (Some (concat (map (\<lambda>data. projr (sub_window_table u data))
              (filter (\<lambda>data. data \<noteq> [])
                 (map (\<lambda>day. projr (entsog_api_call_with_retries u day
                         (day + Timedelta_days 1) [indicator]
                         (greek_operator_point_directions u)))
                      (date_range start end freq_2D)))))))"
proof -
  let ?days = "date_range start end freq_2D"
  let ?fetch = "\<lambda>day. entsog_api_call_with_retries u day (day + Timedelta_days 1) [indicator]
                         (greek_operator_point_directions u)"
  let ?lg0 = "[(INFO, Handling_partition start end)] :: 'a log"
  from asset have a: "asset = entsog_asset indicator" by (rule windowed_assets_cases)
  have none: "snd (asset u (start, end)) = Inr None" if "\<forall>day \<in> set ?days. ?fetch day = Inr []"
    using fetch_loop_all_empty [OF that, of ?lg0 "[]"]
    by (simp add: a entsog_asset_def Let_def)
  have some: "snd (asset u (start, end)) =
            Inr (Some (concat (map (\<lambda>data. projr (sub_window_table u data))
              (filter (\<lambda>data. data \<noteq> []) (map (\<lambda>day. projr (?fetch day)) ?days)))))"
    if ok: "\<forall>day \<in> set ?days. \<exists>data. ?fetch day = Inr data
              \<and> (data \<noteq> [] \<longrightarrow> (\<exists>tbl. sub_window_table u data = Inr tbl))"
      and ne: "\<exists>day \<in> set ?days. ?fetch day \<noteq> Inr []"
  proof -
    let ?fetched = "filter (\<lambda>data. data \<noteq> []) (map (\<lambda>day. projr (?fetch day)) ?days)"
    from ne obtain day where day: "day \<in> set ?days" "?fetch day \<noteq> Inr []" by blast
    with ok obtain data where data: "?fetch day = Inr data" "data \<noteq> []" by force
    from day(1) have "projr (?fetch day) \<in> set (map (\<lambda>day. projr (?fetch day)) ?days)"
      by (rule imageI [of day "set ?days" "\<lambda>day. projr (?fetch day)", simplified
            set_map [symmetric]])
    with data have "data \<in> set ?fetched" by simp
    then have "?fetched \<noteq> []" by (rule ne_from_mem)
    then have "map (\<lambda>data. projr (sub_window_table u data)) ?fetched \<noteq> []"
      by (simp only: map_is_Nil_conv not_False_eq_True)
    moreover from fetch_loop_ok [OF ok, of ?lg0 "[]"]
    have "snd (fetch_loop u indicator ?days ?lg0 []) =
            Inr (map (\<lambda>data. projr (sub_window_table u data)) ?fetched)"
      by (simp only: append_Nil)
    ultimately show ?thesis
      unfolding a by (rule entsog_asset_some [rotated])
  qed
  from none some show ?thesis by blast
qed

theorem empty_partition_gives_absent_output_witness:
  "snd (entsog_flows_daily (sample_collaborators []) (0, 30)) = Inr None
   \<and> snd (entsog_flows_daily (sample_collaborators sample_store) (0, 30)) =
       Inr (Some
         [\<lparr>timestamp = 0, point_id = ''KIPI'', point_type = ''entry'', cell_value = Num 5\<rparr>,
          \<lparr>timestamp = 0, point_id = ''KIPI'', point_type = ''entry'', cell_value = Num 7\<rparr>,
          \<lparr>timestamp = 48, point_id = ''KIPI'', point_type = ''entry'', cell_value = Num 6\<rparr>,
          \<lparr>timestamp = 744, point_id = ''KIPI'', point_type = ''entry'', cell_value = Num 9\<rparr>])"
proof -
  let ?u = "sample_collaborators sample_store"
  let ?fetch = "\<lambda>u day. entsog_api_call_with_retries u day (day + Timedelta_days 1)
                  [''physical_flow''] (greek_operator_point_directions u)"
  note defs = sample_collaborators_def api_query_def sample_store_def sample_row_def
      Timedelta_days_def sub_window_table_def or_raise_def sample_to_datetime_def
      rename_and_index_def keep_value_def Let_def
  have empty: "\<forall>day \<in> set (date_range 0 30 freq_2D). ?fetch (sample_collaborators []) day = Inr []"
    by (simp add: sample_collaborators_def api_query_def)
  have ok: "\<forall>day \<in> set (date_range 0 30 freq_2D). \<exists>data. ?fetch ?u day = Inr data
              \<and> (data \<noteq> [] \<longrightarrow> (\<exists>tbl. sub_window_table ?u data = Inr tbl))"
    by (simp add: sample_dates defs)
  have ne: "\<exists>day \<in> set (date_range 0 30 freq_2D). ?fetch ?u day \<noteq> Inr []"
    by (simp add: sample_dates defs)
  from empty_partition_gives_absent_output [OF sample_member, of 0 30 "sample_collaborators []"]
    empty
  have first: "snd (entsog_flows_daily (sample_collaborators []) (0, 30)) = Inr None"
    by blast
  from empty_partition_gives_absent_output [OF sample_member, of 0 30 ?u] ok ne
  have "snd (entsog_flows_daily ?u (0, 30)) =
      Inr (Some (concat (map (\<lambda>data. projr (sub_window_table ?u data))
              (filter (\<lambda>data. data \<noteq> [])
                 (map (\<lambda>day. projr (?fetch ?u day)) (date_range 0 30 freq_2D))))))"
    by blast
  also have "\<dots> = Inr (Some
         [\<lparr>timestamp = 0, point_id = ''KIPI'', point_type = ''entry'', cell_value = Num 5\<rparr>,
          \<lparr>timestamp = 0, point_id = ''KIPI'', point_type = ''entry'', cell_value = Num 7\<rparr>,
          \<lparr>timestamp = 48, point_id = ''KIPI'', point_type = ''entry'', cell_value = Num 6\<rparr>,
          \<lparr>timestamp = 744, point_id = ''KIPI'', point_type = ''entry'', cell_value = Num 9\<rparr>])"
    by (simp add: sample_dates defs)
  finally show ?thesis using first by simp
qed

section \<open>Properties of the spreadsheet assets\<close>

subsection \<open>Errors\<close>

lemma traverse_error:
  "traverse f xs = Inl e \<Longrightarrow> \<exists>x \<in> set xs. f x = Inl e"
  by (induction xs) (auto split: sum.splits)

lemma or_raise_error: "or_raise e' r = Inl e \<Longrightarrow> e = e'"
  by (auto simp: or_raise_def split: option.splits)

lemma add_suffix_error: "add_suffix suf x = Inl e \<Longrightarrow> e = TypeError"
  by (auto simp: add_suffix_def split: cell.splits)

lemma suffixed_headers_error: "suffixed_headers hs = Inl e \<Longrightarrow> e = TypeError"
  by (auto simp: suffixed_headers_def split: sum.splits dest!: traverse_error add_suffix_error)

lemma wide_to_long_error:
  "wide_to_long P df = Inl e \<Longrightarrow> e = IndexError \<or> e = TypeError \<or> e = ValueError"
  by (auto simp: wide_to_long_def split: list.splits sum.splits
      dest!: traverse_error or_raise_error suffixed_headers_error)

lemma drop_column_error: "drop_column i df = Inl e \<Longrightarrow> e = IndexError"
  by (auto simp: drop_column_def split: if_splits)

lemma strip_flows_error: "strip_flows P df = Inl e \<Longrightarrow> e = IndexError"
  by (auto simp: strip_flows_def Let_def split: sum.splits dest!: drop_column_error)

lemma strip_gcv_error: "strip_gcv df = Inl e \<Longrightarrow> e = IndexError"
  by (auto simp: strip_gcv_def Let_def split: sum.splits dest!: drop_column_error)

lemma strip_less_than_error: "strip_less_than P col = Inl e \<Longrightarrow> e = ValueError"
  by (auto simp: strip_less_than_def split: if_splits dest!: traverse_error or_raise_error)

lemma quality_block_error: "quality_block P name w sliced = Inl e \<Longrightarrow> e = ValueError"
  by (auto simp: quality_block_def Let_def split: if_splits sum.splits
      dest!: traverse_error or_raise_error strip_less_than_error)

lemma points_loop_error:
  "snd (points_loop P y df names lg dfs) = Inl e \<Longrightarrow> e = ValueError"
  by (induction names arbitrary: lg dfs)
     (auto simp: Let_def split: option.splits sum.splits if_splits dest!: quality_block_error)

lemma pd_concat_error: "pd_concat frames = Inl e \<Longrightarrow> e = ValueError"
  by (auto simp: pd_concat_def split: if_splits)

text \<open>
  Claim C5. Each spreadsheet asset takes the single response of its fetch: when the
  status is not 200 the run ends with the fetch error (nothing is fetched again and no
  table is returned), and with status 200 the run never ends with the fetch error.
\<close>

theorem non_200_status_is_fatal:
  "(status_code response \<noteq> 200 \<longrightarrow>
      snd (desfa_flows_daily P response) = Inl (FetchFailed (status_code response))
      \<and> snd (desfa_ng_quality_yearly P current_year response) =
          Inl (FetchFailed (status_code response))
      \<and> snd (desfa_ng_gcv_daily P response) = Inl (FetchFailed (status_code response)))
   \<and> (status_code response = 200 \<longrightarrow>
      snd (desfa_flows_daily P response) \<noteq> Inl (FetchFailed s)
      \<and> snd (desfa_ng_quality_yearly P current_year response) \<noteq> Inl (FetchFailed s)
      \<and> snd (desfa_ng_gcv_daily P response) \<noteq> Inl (FetchFailed s))"
proof (intro conjI impI)
  assume "status_code response \<noteq> 200"
  then show "snd (desfa_flows_daily P response) = Inl (FetchFailed (status_code response))"
    and "snd (desfa_ng_quality_yearly P current_year response) =
          Inl (FetchFailed (status_code response))"
    and "snd (desfa_ng_gcv_daily P response) = Inl (FetchFailed (status_code response))"
    by (simp_all add: desfa_flows_daily_def desfa_ng_quality_yearly_def desfa_ng_gcv_daily_def Let_def)
next
  assume ok: "status_code response = 200"
  show "snd (desfa_flows_daily P response) \<noteq> Inl (FetchFailed s)"
    using ok
    by (auto simp: desfa_flows_daily_def split: sum.splits
        dest!: strip_flows_error wide_to_long_error)
  show "snd (desfa_ng_gcv_daily P response) \<noteq> Inl (FetchFailed s)"
    using ok
    by (auto simp: desfa_ng_gcv_daily_def Let_def split: sum.splits
        dest!: strip_gcv_error wide_to_long_error)
  show "snd (desfa_ng_quality_yearly P current_year response) \<noteq> Inl (FetchFailed s)"
    using ok
    by (auto simp: desfa_ng_quality_yearly_def Let_def split: sum.splits
        dest!: points_loop_error pd_concat_error)
qed

theorem non_200_status_is_fatal_witness:
  "snd (desfa_flows_daily sample_pandas \<lparr>status_code = 404, content = sample_flows_sheet\<rparr>) =
     Inl (FetchFailed 404)
   \<and> snd (desfa_flows_daily sample_pandas \<lparr>status_code = 200, content = sample_flows_sheet\<rparr>) \<noteq>
     Inl (FetchFailed 200)"
  using non_200_status_is_fatal [of "\<lparr>status_code = 404, content = sample_flows_sheet\<rparr>"
      sample_pandas 2024 200]
    non_200_status_is_fatal [of "\<lparr>status_code = 200, content = sample_flows_sheet\<rparr>"
      sample_pandas 2024 200]
  by simp

subsection \<open>Sample runs\<close>

lemma sample_flows_run:
  "desfa_flows_daily sample_pandas \<lparr>status_code = 200, content = sample_flows_sheet\<rparr> =
     ([], Inr (Some
        [\<lparr>timestamp = 2008, point_id = ''SIDIROKASTRO'', point_type = ''entry'', cell_value = Num 1\<rparr>,
         \<lparr>timestamp = 2008, point_id = ''KIPI'', point_type = ''entry'', cell_value = Str ''-''\<rparr>,
         \<lparr>timestamp = 2008, point_id = ''AGIA TRIADA'', point_type = ''entry'', cell_value = Num 3\<rparr>,
         \<lparr>timestamp = 2008, point_id = ''NEA MESIMVRIA'', point_type = ''entry'', cell_value = Num 4\<rparr>,
         \<lparr>timestamp = 2008, point_id = ''KIPI'', point_type = ''exit'', cell_value = Num 5\<rparr>]))"
  by code_simp

lemma sample_quality_run:
  "desfa_ng_quality_yearly sample_pandas 2009
     \<lparr>status_code = 200, content = sample_quality_sheet\<rparr> =
     ([(INFO, Handling_single_partition), (WARNING, No_data_found ''SIDIROKASTRO''),
       (WARNING, No_data_found ''KIPI''), (WARNING, No_data_found ''NEA MESIMVRIA'')],
      Inr (Some
        [\<lparr>q_timestamp = 2008, q_point_id = Str ''AGIA TRIADA'',
            q_values = [Num 1, Num 1, Num 1, Num 1, Num 1, Num 1, Num 1, Num 1, Num 1, Num 1,
                        Num 1, Num 1, Num 1, Str ''<1.2'', Num (6 / 5)]\<rparr>,
         \<lparr>q_timestamp = 2009, q_point_id = Str ''AGIA TRIADA'',
            q_values = [NaN, NaN, NaN, NaN, NaN, NaN, NaN, NaN, NaN, NaN, NaN, NaN, NaN,
                        Num 2, Num (1 / 2)]\<rparr>]))"
  by code_simp

subsection \<open>Placeholders\<close>

text \<open>
  Claim C2 says that a dash in a source cell becomes the missing-value marker in the
  output of every spreadsheet asset. \<open>desfa_flows_daily\<close> never calls
  \<open>replace_dash_with_nan\<close>: on the sample flows sheet the dash of the \<open>KIPI\<close> entry
  column reaches the output as the string \<open>"-"\<close>.
\<close>

theorem flows_daily_keeps_dash:
  "snd (desfa_flows_daily sample_pandas \<lparr>status_code = 200, content = sample_flows_sheet\<rparr>) =
     Inr (Some
        [\<lparr>timestamp = 2008, point_id = ''SIDIROKASTRO'', point_type = ''entry'', cell_value = Num 1\<rparr>,
         \<lparr>timestamp = 2008, point_id = ''KIPI'', point_type = ''entry'', cell_value = Str ''-''\<rparr>,
         \<lparr>timestamp = 2008, point_id = ''AGIA TRIADA'', point_type = ''entry'', cell_value = Num 3\<rparr>,
         \<lparr>timestamp = 2008, point_id = ''NEA MESIMVRIA'', point_type = ''entry'', cell_value = Num 4\<rparr>,
         \<lparr>timestamp = 2008, point_id = ''KIPI'', point_type = ''exit'', cell_value = Num 5\<rparr>])"
  by (simp add: sample_flows_run)

subsection \<open>Missing entry points\<close>

text \<open>
  Claim C6 says that for every set of entry points missing from the sheet the asset
  logs one warning per missing point and still returns a result. When all four points
  are missing, the run logs the four warnings and then raises: \<open>pd.concat\<close> is given
  no frame.
\<close>

theorem all_points_missing_raises:
  "desfa_ng_quality_yearly sample_pandas 2024
     \<lparr>status_code = 200, content = unmarked_quality_sheet\<rparr> =
     ([(INFO, Handling_single_partition), (WARNING, No_data_found ''AGIA TRIADA''),
       (WARNING, No_data_found ''SIDIROKASTRO''), (WARNING, No_data_found ''KIPI''),
       (WARNING, No_data_found ''NEA MESIMVRIA'')],
      Inl ValueError)"
  by code_simp

subsection \<open>The less-than prefix\<close>

lemma traverse_Inr:
  "traverse f xs = Inr ys \<Longrightarrow>
     length ys = length xs \<and> (\<forall>i < length xs. f (xs ! i) = Inr (ys ! i))"
proof (induction xs arbitrary: ys)
  case Nil
  then show ?case by simp
next
  case (Cons x xs)
  then obtain y ys' where y: "f x = Inr y" and ys': "traverse f xs = Inr ys'"
    and ys: "ys = y # ys'"
    by (auto split: sum.splits)
  from Cons.IH [OF ys'] y ys show ?case
    by (auto simp: nth_Cons split: nat.splits)
qed

lemma replace_dash_keeps: "s \<noteq> ''-'' \<Longrightarrow> replace_dash_with_nan (Str s) = Str s"
  by (simp add: replace_dash_with_nan_def)

lemma strip_less_than_length:
  "strip_less_than P col = Inr col' \<Longrightarrow> length col' = length col"
  by (auto simp: strip_less_than_def split: if_splits dest: traverse_Inr)

text \<open>
  Claim C7, as amended. In every assembled block the less-than cleanup is applied to
  the \<open>hydrocarbon_dew_point_max\<close> column only: a string cell of that column has every
  \<open><\<close> removed before it is parsed as a number, so that \<open>"<1.2"\<close> yields what parsing
  \<open>"1.2"\<close> yields and the threshold is lost. Every cell of the other fourteen value
  columns, in every row of every block, only passes through the dash replacement, with
  any less-than prefix kept.
\<close>

theorem less_than_stripped_in_hydrocarbon_column:
  assumes block: "quality_block P search_string full_width sliced = Inr block"
    and i: "i < length sliced"
    and len: "16 \<le> length (sliced ! i)"
  shows "length block = length sliced
         \<and> (\<forall>s. sliced ! i ! 15 = Str s \<and> s \<noteq> ''-'' \<longrightarrow>
               Some (q_values (block ! i) ! hydrocarbon_dew_point_max) =
                 float_of_str P (filter (\<lambda>ch. ch \<noteq> CHR ''<'') s))
         \<and> (\<forall>j < hydrocarbon_dew_point_max.
               q_values (block ! i) ! j = replace_dash_with_nan (sliced ! i ! Suc j))"
proof -
  let ?block = "map (take 16) sliced"
  let ?vals = "map (\<lambda>r. map replace_dash_with_nan (tl r)) ?block"
  let ?pids = "map (\<lambda>r. replace_dash_with_nan (Str search_string) :: 'a cell) ?block"
  let ?col = "map (\<lambda>v. v ! hydrocarbon_dew_point_max) ?vals"
  from block obtain ts col where
    ts: "traverse (\<lambda>c. or_raise ValueError (to_datetime_year P c)) (map hd ?block) = Inr ts"
    and col: "strip_less_than P ?col = Inr col"
    and out: "block = map (\<lambda>(t, p, v, c).
                \<lparr>q_timestamp = t, q_point_id = p, q_values = v[hydrocarbon_dew_point_max := c]\<rparr>)
              (zip ts (zip ?pids (zip ?vals col)))"
    by (auto simp: quality_block_def Let_def split: if_splits sum.splits)
  have lts: "length ts = length sliced" using traverse_Inr [OF ts] by simp
  have lcol: "length col = length sliced" using strip_less_than_length [OF col] by simp
  have v15: "length (?vals ! i) = 15" using i len by simp
  have vj: "?vals ! i ! j = replace_dash_with_nan (sliced ! i ! Suc j)" if "j < 15" for j
    using i len that by (simp add: nth_tl)
  have bi: "block ! i = \<lparr>q_timestamp = ts ! i, q_point_id = ?pids ! i,
                         q_values = (?vals ! i)[hydrocarbon_dew_point_max := col ! i]\<rparr>"
    using i lts lcol by (simp add: out)
  have parsed: "Some (q_values (block ! i) ! hydrocarbon_dew_point_max) =
             float_of_str P (filter (\<lambda>ch. ch \<noteq> CHR ''<'') s)"
    if cell: "sliced ! i ! 15 = Str s" and s: "s \<noteq> ''-''" for s
  proof -
    have ci: "?col ! i = Str s"
      using i vj [of 14] cell s by (simp add: hydrocarbon_dew_point_max_def replace_dash_keeps)
    have "Str s \<in> set ?col" using ci i by (metis length_map nth_mem)
    then have obj: "dtype_is_object ?col"
      unfolding dtype_is_object_def list_ex_iff by (rule bexI [rotated]) simp
    with col have tr: "traverse (\<lambda>c. or_raise ValueError
                           (float_of_str P (filter (\<lambda>ch. ch \<noteq> CHR ''<'') (astype_str P c))))
                   ?col = Inr col"
      by (simp add: strip_less_than_def)
    have icol: "i < length ?col" using i by simp
    from traverse_Inr [OF tr] have "\<forall>k < length ?col.
        or_raise ValueError (float_of_str P (filter (\<lambda>ch. ch \<noteq> CHR ''<'')
            (astype_str P (?col ! k)))) = Inr (col ! k)"
      by (rule conjunct2)
    with icol have "or_raise ValueError (float_of_str P (filter (\<lambda>ch. ch \<noteq> CHR ''<'')
            (astype_str P (?col ! i)))) = Inr (col ! i)"
      by blast
    then have "or_raise ValueError (float_of_str P (filter (\<lambda>ch. ch \<noteq> CHR ''<'')
            (astype_str P (Str s)))) = Inr (col ! i)"
      by (simp only: ci)
    then have coli: "float_of_str P (filter (\<lambda>ch. ch \<noteq> CHR ''<'') s) = Some (col ! i)"
      by (simp add: astype_str_def or_raise_def split: option.splits)
    show ?thesis using v15 by (simp add: bi coli hydrocarbon_dew_point_max_def)
  qed
  have "length block = length sliced" using lts lcol by (simp add: out)
  moreover have "\<forall>j < hydrocarbon_dew_point_max.
               q_values (block ! i) ! j = replace_dash_with_nan (sliced ! i ! Suc j)"
    using vj by (simp add: bi hydrocarbon_dew_point_max_def)
  ultimately show ?thesis using parsed by blast
qed

lemma sample_block:
  "quality_block sample_pandas ''AGIA TRIADA'' 16 (drop 3 (rows sample_quality_sheet)) =
     Inr [\<lparr>q_timestamp = 2008, q_point_id = Str ''AGIA TRIADA'',
            q_values = [Num 1, Num 1, Num 1, Num 1, Num 1, Num 1, Num 1, Num 1, Num 1, Num 1,
                        Num 1, Num 1, Num 1, Str ''<1.2'', Num (6 / 5)]\<rparr>,
          \<lparr>q_timestamp = 2009, q_point_id = Str ''AGIA TRIADA'',
            q_values = [NaN, NaN, NaN, NaN, NaN, NaN, NaN, NaN, NaN, NaN, NaN, NaN, NaN,
                        Num 2, Num (1 / 2)]\<rparr>]"
  by code_simp

theorem less_than_stripped_in_hydrocarbon_column_witness:
  "drop 3 (rows sample_quality_sheet) ! 0 ! 15 = Str ''<1.2''
   \<and> q_values (projr (quality_block sample_pandas ''AGIA TRIADA'' 16
                        (drop 3 (rows sample_quality_sheet))) ! 0) ! hydrocarbon_dew_point_max =
       Num (6 / 5)
   \<and> drop 3 (rows sample_quality_sheet) ! 0 ! Suc 13 = Str ''<1.2''
   \<and> q_values (projr (quality_block sample_pandas ''AGIA TRIADA'' 16
                        (drop 3 (rows sample_quality_sheet))) ! 0) ! 13 = Str ''<1.2''"
proof -
  let ?sliced = "drop 3 (rows sample_quality_sheet)"
  let ?block = "projr (quality_block sample_pandas ''AGIA TRIADA'' 16 ?sliced)"
  have cell: "?sliced ! 0 ! 15 = Str ''<1.2''"
    by code_simp
  have other: "?sliced ! 0 ! Suc 13 = Str ''<1.2''"
    by code_simp
  have len: "16 \<le> length (?sliced ! 0)"
    by code_simp
  have i: "0 < length ?sliced"
    by code_simp
  have parse: "float_of_str sample_pandas ''1.2'' = Some (Num (6 / 5))"
    by (simp add: sample_pandas_def)
  have blk: "quality_block sample_pandas ''AGIA TRIADA'' 16 ?sliced = Inr ?block"
    by (simp add: sample_block)
  from less_than_stripped_in_hydrocarbon_column [OF blk i len]
  have hc: "\<forall>s. ?sliced ! 0 ! 15 = Str s \<and> s \<noteq> ''-'' \<longrightarrow>
               Some (q_values (?block ! 0) ! hydrocarbon_dew_point_max) =
                 float_of_str sample_pandas (filter (\<lambda>ch. ch \<noteq> CHR ''<'') s)"
    and oc: "\<forall>j < hydrocarbon_dew_point_max.
               q_values (?block ! 0) ! j = replace_dash_with_nan (?sliced ! 0 ! Suc j)"
    by blast+
  from hc cell have "Some (q_values (?block ! 0) ! hydrocarbon_dew_point_max) =
                 float_of_str sample_pandas (filter (\<lambda>ch. ch \<noteq> CHR ''<'') ''<1.2'')"
    by simp
  then have h: "q_values (?block ! 0) ! hydrocarbon_dew_point_max = Num (6 / 5)"
    by (simp add: parse)
  have "(13::nat) < hydrocarbon_dew_point_max" by (simp add: hydrocarbon_dew_point_max_def)
  with oc have "q_values (?block ! 0) ! 13 = replace_dash_with_nan (?sliced ! 0 ! Suc 13)"
    by blast
  then have o: "q_values (?block ! 0) ! 13 = Str ''<1.2''"
    by (simp only: other) (simp add: replace_dash_with_nan_def)
  from cell h other o show ?thesis by blast
qed

text \<open>
  Claim C7 as stated fails outside that column: on the sample sheet the cell
  \<open>"<1.2"\<close> of the \<open>water_dew_point\<close> column (the fourteenth value) reaches the output
  as a string, next to the parsed \<open>hydrocarbon_dew_point_max\<close>.
\<close>

theorem less_than_kept_in_water_dew_point:
  "snd (desfa_ng_quality_yearly sample_pandas 2009
          \<lparr>status_code = 200, content = sample_quality_sheet\<rparr>) =
     Inr (Some
        [\<lparr>q_timestamp = 2008, q_point_id = Str ''AGIA TRIADA'',
            q_values = [Num 1, Num 1, Num 1, Num 1, Num 1, Num 1, Num 1, Num 1, Num 1, Num 1,
                        Num 1, Num 1, Num 1, Str ''<1.2'', Num (6 / 5)]\<rparr>,
         \<lparr>q_timestamp = 2009, q_point_id = Str ''AGIA TRIADA'',
            q_values = [NaN, NaN, NaN, NaN, NaN, NaN, NaN, NaN, NaN, NaN, NaN, NaN, NaN,
                        Num 2, Num (1 / 2)]\<rparr>])"
  by (simp add: sample_quality_run)

subsection \<open>Wide to long\<close>













section \<open>Splitting a partition into sub-windows\<close>


lemma sub_window_table_error: "sub_window_table u d = Inl e \<Longrightarrow> e = ValueError"
  by (auto simp: sub_window_table_def Let_def split: sum.splits
      dest!: traverse_error or_raise_error)



















end
